theory Spec2Isabelle
  imports Complex_Main "HOL-Library.Word"
begin

section \<open>Values shared by the views\<close>

text \<open>
  The views are React function components. Each \<open>useState\<close> cell becomes a field of a
  state record, each handler a function from the state of the render that created the
  handler to the state after the handler's updates. An awaited network call is an input
  of the handler: the outcome the promise settled with. JavaScript numbers that hold
  page numbers and counts are modelled as \<open>int\<close>; the one place where the source
  divides (page reconciliation after a delete) has the IEEE results for a zero divisor
  written out. The source computes in IEEE doubles, which are exact on the safe integers
  (magnitude below \<open>2\<^sup>5\<^sup>3\<close>) and round beyond them; the model computes exactly
  everywhere, so a property that rests on the arithmetic of the counts is stated for
  counts that are safe integers.
\<close>

text \<open>
  What a \<open>catch\<close> block can receive: an axios error, with the value of
  \<open>error.response?.data?.error\<close> (\<open>None\<close> when any link of the chain is undefined),
  or any other thrown value.
\<close>

datatype thrown = AxiosError "string option" | OtherError

datatype 'a outcome = Resolved 'a | Rejected thrown

text \<open>\<open>axios.isAxiosError(error)\<close>\<close>

fun isAxiosError :: "thrown \<Rightarrow> bool" where
  "isAxiosError (AxiosError _) = True"
| "isAxiosError OtherError = False"

text \<open>
  \<open>error.response?.data?.error || fallback\<close>: the fallback is taken when the backend
  value is undefined or the empty string (both falsy).
\<close>

fun backend_or :: "thrown \<Rightarrow> string \<Rightarrow> string" where
  "backend_or (AxiosError (Some m)) fallback = (if m = [] then fallback else m)"
| "backend_or (AxiosError None) fallback = fallback"
| "backend_or OtherError fallback = fallback"

text \<open>
  \<open>Number.prototype.toString\<close> on an integer, in decimal (the form JavaScript prints for
  integers below \<open>10\<^sup>2\<^sup>1\<close>, which page numbers and counts are).
\<close>

fun digits :: "nat \<Rightarrow> string" where
  "digits n =
     (if n < 10 then [''0123456789'' ! n]
      else digits (n div 10) @ [''0123456789'' ! (n mod 10)])"

definition toString :: "int \<Rightarrow> string" where
  "toString i = (if i < 0 then CHR ''-'' # digits (nat (- i)) else digits (nat i))"

text \<open>
  The values \<open>Math.ceil(a / b)\<close> can take for integers \<open>a\<close> and \<open>b\<close>: an integer, or,
  when \<open>b\<close> is zero, an infinity or NaN. (HOL's own \<open>a div 0\<close> is \<open>0\<close>, which is not
  what the source computes.) The quotient is taken exactly; \<open>- ((- a) div b)\<close> is the
  ceiling of \<open>a / b\<close> for either sign of \<open>b\<close>. The source rounds \<open>a / b\<close> to a double
  before \<open>Math.ceil\<close>, which gives the same integer while \<open>a\<close> and \<open>b\<close> are at most
  \<open>2\<^sup>5\<^sup>3\<close> in magnitude and can differ above.
\<close>

datatype jsnum = Finite int | PosInfinity | NegInfinity | NaN

definition ceilDiv :: "int \<Rightarrow> int \<Rightarrow> jsnum" where
  "ceilDiv a b =
     (if b = 0 then (if 0 < a then PosInfinity else if a < 0 then NegInfinity else NaN)
      else Finite (- ((- a) div b)))"

text \<open>\<open>x > y\<close> for an integer \<open>x\<close>, and \<open>y > 0\<close>; every comparison with NaN is false.\<close>

fun gtNum :: "int \<Rightarrow> jsnum \<Rightarrow> bool" where
  "gtNum x (Finite y) = (y < x)"
| "gtNum x PosInfinity = False"
| "gtNum x NegInfinity = True"
| "gtNum x NaN = False"

fun positive :: "jsnum \<Rightarrow> bool" where
  "positive (Finite y) = (0 < y)"
| "positive PosInfinity = True"
| "positive NegInfinity = False"
| "positive NaN = False"

fun numToString :: "jsnum \<Rightarrow> string" where
  "numToString (Finite i) = toString i"
| "numToString PosInfinity = ''Infinity''"
| "numToString NegInfinity = ''-Infinity''"
| "numToString NaN = ''NaN''"

text \<open>\<open>Array.prototype.join\<close> on an array of integers.\<close>

fun join :: "string \<Rightarrow> int list \<Rightarrow> string" where
  "join sep [] = []"
| "join sep [x] = toString x"
| "join sep (x # y # ys) = toString x @ sep @ join sep (y # ys)"

section \<open>UserPosts: the list view\<close>

record DateInterval =
  startDate :: string
  endDate :: string

record FilterState =
  dateInterval :: "DateInterval option"
  searchQuery :: "string option"
  categoryIds :: "int list option"

text \<open>
  \<open>Partial<FilterState>\<close>: each key is absent (\<open>None\<close>) or present with a value, which
  may itself be undefined (\<open>Some None\<close>).
\<close>

record PartialFilterState =
  p_dateInterval :: "DateInterval option option"
  p_searchQuery :: "string option option"
  p_categoryIds :: "int list option option"

record Pagination =
  currentPage :: int
  totalPages :: int
  totalItems :: int
  itemsPerPage :: int

record ErrorDetails =
  message :: string
  details :: "string option"
  code :: "string option"

text \<open>
  The state cells of the component. \<open>filtersRef\<close> is the identity of the object held
  in \<open>filters\<close>: React compares effect dependencies with \<open>Object.is\<close>, which for an
  object is identity, and every \<open>setFilters\<close> of the source stores a fresh object.
\<close>

record 'post UserPostsState =
  posts :: "'post list"
  isLoading :: bool
  showErrorModal :: bool
  errorDetails :: "ErrorDetails option"
  pagination :: Pagination
  sortBy :: string
  filters :: FilterState
  filtersRef :: nat

definition emptyFilters :: FilterState where
  "emptyFilters = \<lparr>dateInterval = None, searchQuery = None, categoryIds = None\<rparr>"

definition initialState :: "'post UserPostsState" where
  "initialState =
     \<lparr>posts = [], isLoading = True, showErrorModal = False, errorDetails = None,
      pagination = \<lparr>currentPage = 1, totalPages = 1, totalItems = 0, itemsPerPage = 6\<rparr>,
      sortBy = ''publishDate'', filters = emptyFilters, filtersRef = 0\<rparr>"

text \<open>The body of a successful response of \<open>GET /posts/user/posts\<close>.\<close>

record 'post PostsResponse =
  r_posts :: "'post list"
  r_pagination :: Pagination

subsection \<open>fetchPosts\<close>

text \<open>
  The \<open>URLSearchParams\<close> built in the \<open>try\<close> block, as the ordered list of pairs.
  \<open>render\<close> is the state of the render whose closure \<open>fetchPosts\<close> belongs to: the
  source reads \<open>pagination.itemsPerPage\<close> from it.
\<close>

definition fetchParams :: "'post UserPostsState \<Rightarrow> jsnum \<Rightarrow> string \<Rightarrow> FilterState \<Rightarrow> (string \<times> string) list" where
  "fetchParams render page sortKey currentFilters =
     [(''page'', numToString page),
      (''limit'', toString (itemsPerPage (pagination render))),
      (''sort'', sortKey)]
     @ (case dateInterval currentFilters of
          None \<Rightarrow> []
        | Some d \<Rightarrow> (if startDate d = [] then [] else [(''startDate'', startDate d)]))
     @ (case dateInterval currentFilters of
          None \<Rightarrow> []
        | Some d \<Rightarrow> (if endDate d = [] then [] else [(''endDate'', endDate d)]))
     @ (case categoryIds currentFilters of
          None \<Rightarrow> []
        | Some ids \<Rightarrow> (if 0 < length ids then [(''categories'', join '','' ids)] else []))"

text \<open>The requests a handler sends, in order.\<close>

datatype request =
  Get "(string \<times> string) list"
| Delete int

text \<open>Before the \<open>await\<close>: \<open>setIsLoading(true)\<close>.\<close>

definition fetchPosts_begin :: "'post UserPostsState \<Rightarrow> 'post UserPostsState" where
  "fetchPosts_begin st = st\<lparr>isLoading := True\<rparr>"

text \<open>
  After the \<open>await\<close>: the \<open>try\<close> branch stores posts and pagination, the \<open>catch\<close> branch
  stores the error (it does not look at the caught value), \<open>finally\<close> clears the flag.
  \<open>t\<close> is the translation function of \<open>useTranslation\<close>.
\<close>

definition fetchPosts_settle ::
  "(string \<Rightarrow> string) \<Rightarrow> 'post PostsResponse outcome \<Rightarrow> 'post UserPostsState \<Rightarrow> 'post UserPostsState" where
  "fetchPosts_settle t res st =
     (case res of
        Resolved response \<Rightarrow> st\<lparr>posts := r_posts response, pagination := r_pagination response\<rparr>
      | Rejected err \<Rightarrow>
          st\<lparr>errorDetails := Some \<lparr>message = t ''userPosts.errors.loadFailed'',
                                     details = Some (t ''error.tryAgain''),
                                     code = Some ''POSTS_LOAD_ERROR''\<rparr>,
             showErrorModal := True\<rparr>)
     \<lparr>isLoading := False\<rparr>"

definition fetchPosts ::
  "(string \<Rightarrow> string) \<Rightarrow> 'post PostsResponse outcome \<Rightarrow> 'post UserPostsState \<Rightarrow> 'post UserPostsState" where
  "fetchPosts t res st = fetchPosts_settle t res (fetchPosts_begin st)"

subsection \<open>The effect and the handlers\<close>

text \<open>
  \<open>useEffect(() => fetchPosts(pagination.currentPage, sortBy, filters),
  [pagination.currentPage, sortBy, filters])\<close>: after a render the effect runs when one
  of the three dependencies differs from the previous render, and sends one request
  built from the new render's state. On mount it always runs.
\<close>

definition effectDeps :: "'post UserPostsState \<Rightarrow> int \<times> string \<times> nat" where
  "effectDeps st = (currentPage (pagination st), sortBy st, filtersRef st)"

definition effectRequest :: "'post UserPostsState \<Rightarrow> request" where
  "effectRequest st =
     Get (fetchParams st (Finite (currentPage (pagination st))) (sortBy st) (filters st))"

definition useEffect :: "'post UserPostsState \<Rightarrow> 'post UserPostsState \<Rightarrow> request list" where
  "useEffect prev next = (if effectDeps next = effectDeps prev then [] else [effectRequest next])"

definition useEffect_mount :: "'post UserPostsState \<Rightarrow> request list" where
  "useEffect_mount st = [effectRequest st]"

definition handleSortChange :: "'post UserPostsState \<Rightarrow> string \<Rightarrow> 'post UserPostsState" where
  "handleSortChange st newSort =
     st\<lparr>sortBy := newSort, pagination := (pagination st)\<lparr>currentPage := 1\<rparr>\<rparr>"

text \<open>\<open>{ ...prev, ...newFilters }\<close>: a key present in \<open>newFilters\<close> wins, even when undefined.\<close>

definition mergeFilters :: "FilterState \<Rightarrow> PartialFilterState \<Rightarrow> FilterState" where
  "mergeFilters prev newFilters =
     \<lparr>dateInterval = (case p_dateInterval newFilters of None \<Rightarrow> dateInterval prev | Some v \<Rightarrow> v),
      searchQuery = (case p_searchQuery newFilters of None \<Rightarrow> searchQuery prev | Some v \<Rightarrow> v),
      categoryIds = (case p_categoryIds newFilters of None \<Rightarrow> categoryIds prev | Some v \<Rightarrow> v)\<rparr>"

definition handleFilterChange :: "'post UserPostsState \<Rightarrow> PartialFilterState \<Rightarrow> 'post UserPostsState" where
  "handleFilterChange st newFilters =
     st\<lparr>filters := mergeFilters (filters st) newFilters,
        filtersRef := Suc (filtersRef st),
        pagination := (pagination st)\<lparr>currentPage := 1\<rparr>\<rparr>"

definition handleResetAll :: "'post UserPostsState \<Rightarrow> 'post UserPostsState" where
  "handleResetAll st =
     st\<lparr>sortBy := ''publishDate'',
        filters := emptyFilters,
        filtersRef := Suc (filtersRef st),
        pagination := (pagination st)\<lparr>currentPage := 1\<rparr>\<rparr>"

definition handlePageChange :: "'post UserPostsState \<Rightarrow> int \<Rightarrow> 'post UserPostsState" where
  "handlePageChange st newPage =
     (if newPage \<ge> 1 \<and> newPage \<le> totalPages (pagination st)
      then st\<lparr>pagination := (pagination st)\<lparr>currentPage := newPage\<rparr>\<rparr>
      else st)"

text \<open>
  \<open>handleDeletePost\<close>. \<open>st\<close> is the state of the render the handler was created in:
  \<open>pagination\<close>, \<open>sortBy\<close> and \<open>filters\<close> are read from it throughout, also after the
  first re-fetch has stored a new pagination. \<open>del\<close>, \<open>r1\<close> and \<open>r2\<close> are the outcomes
  of the delete request and of the first and second re-fetch; \<open>fetchPosts\<close> catches
  its own failure, so only a failed delete reaches the \<open>catch\<close> block. The result is the
  state after the handler and the requests it sent.
\<close>

definition deleteError :: "(string \<Rightarrow> string) \<Rightarrow> thrown \<Rightarrow> ErrorDetails" where
  "deleteError t error =
     (if isAxiosError error
      then \<lparr>message = backend_or error (t ''userPosts.errors.deleteFailed''),
            details = Some (t ''error.tryAgain''),
            code = Some ''POST_DELETE_ERROR''\<rparr>
      else \<lparr>message = t ''userPosts.errors.deleteFailed'',
            details = Some (t ''error.tryAgain''),
            code = Some ''POST_DELETE_ERROR''\<rparr>)"

definition handleDeletePost ::
  "(string \<Rightarrow> string) \<Rightarrow> 'post UserPostsState \<Rightarrow> int \<Rightarrow> unit outcome \<Rightarrow>
   'post PostsResponse outcome \<Rightarrow> 'post PostsResponse outcome \<Rightarrow>
   'post UserPostsState \<times> request list" where
  "handleDeletePost t st postId del r1 r2 =
     (case del of
        Resolved _ \<Rightarrow>
          (let st1 = fetchPosts t r1 st;
               first = Get (fetchParams st (Finite (currentPage (pagination st))) (sortBy st) (filters st));
               newTotalPages = ceilDiv (totalItems (pagination st) - 1) (itemsPerPage (pagination st))
           in if gtNum (currentPage (pagination st)) newTotalPages \<and> positive newTotalPages
              then (fetchPosts t r2 st1,
                    [Delete postId, first, Get (fetchParams st newTotalPages (sortBy st) (filters st))])
              else (st1, [Delete postId, first]))
      | Rejected error \<Rightarrow>
          (st\<lparr>errorDetails := Some (deleteError t error), showErrorModal := True\<rparr>,
           [Delete postId]))"

text \<open>The \<open>onClose\<close> of the error modal, and the two props the modal is rendered with.\<close>

definition errorModal_onClose :: "'post UserPostsState \<Rightarrow> 'post UserPostsState" where
  "errorModal_onClose st = st\<lparr>showErrorModal := False\<rparr>"

definition errorModal_isOpen :: "'post UserPostsState \<Rightarrow> bool" where
  "errorModal_isOpen st = showErrorModal st"

definition errorModal_error :: "(string \<Rightarrow> string) \<Rightarrow> 'post UserPostsState \<Rightarrow> ErrorDetails" where
  "errorModal_error t st =
     (case errorDetails st of
        Some e \<Rightarrow> e
      | None \<Rightarrow> \<lparr>message = t ''error.unknownError'', details = Some (t ''error.tryAgain''), code = None\<rparr>)"

subsection \<open>Query State and the life of a view\<close>

text \<open>The Query State of the view: page, page size, sort key and filters.\<close>

definition queryState :: "'post UserPostsState \<Rightarrow> int \<times> int \<times> string \<times> FilterState" where
  "queryState st =
     (currentPage (pagination st), itemsPerPage (pagination st), sortBy st, filters st)"

text \<open>
  Everything that writes to the state of a mounted view: the five handlers, closing the
  error modal, and a run of \<open>fetchPosts\<close> started by the effect, each with the outcomes
  of the requests it awaits.
\<close>

datatype 'post action =
  SortChange string
| FilterChange PartialFilterState
| ResetAll
| PageChange int
| CloseErrorModal
| Fetch "'post PostsResponse outcome"
| DeletePost int "unit outcome" "'post PostsResponse outcome" "'post PostsResponse outcome"

fun step :: "(string \<Rightarrow> string) \<Rightarrow> 'post UserPostsState \<Rightarrow> 'post action \<Rightarrow> 'post UserPostsState" where
  "step t st (SortChange newSort) = handleSortChange st newSort"
| "step t st (FilterChange newFilters) = handleFilterChange st newFilters"
| "step t st ResetAll = handleResetAll st"
| "step t st (PageChange newPage) = handlePageChange st newPage"
| "step t st CloseErrorModal = errorModal_onClose st"
| "step t st (Fetch res) = fetchPosts t res st"
| "step t st (DeletePost postId del r1 r2) = fst (handleDeletePost t st postId del r1 r2)"

definition run :: "(string \<Rightarrow> string) \<Rightarrow> 'post UserPostsState \<Rightarrow> 'post action list \<Rightarrow> 'post UserPostsState" where
  "run t st acts = foldl (step t) st acts"

text \<open>The page sizes that the successful responses carried by an action report.\<close>

fun reportedSize :: "'post PostsResponse outcome \<Rightarrow> int list" where
  "reportedSize (Resolved response) = [itemsPerPage (r_pagination response)]"
| "reportedSize (Rejected err) = []"

fun reportedSizes :: "'post action \<Rightarrow> int list" where
  "reportedSizes (Fetch res) = reportedSize res"
| "reportedSizes (DeletePost postId del r1 r2) = reportedSize r1 @ reportedSize r2"
| "reportedSizes (SortChange newSort) = []"
| "reportedSizes (FilterChange newFilters) = []"
| "reportedSizes ResetAll = []"
| "reportedSizes (PageChange newPage) = []"
| "reportedSizes CloseErrorModal = []"

section \<open>ChangePasswordPage\<close>

text \<open>
  The passwords are JavaScript strings, sequences of UTF-16 code units, and \<open>.length\<close>
  counts code units. The visibility toggles, which \<open>handleSubmit\<close> neither reads nor
  writes, are left out of the state.
\<close>

type_synonym jsString = "16 word list"

record FormData =
  oldPassword :: jsString
  newPassword :: jsString
  confirmPassword :: jsString

datatype ModalStatus = ModalSuccess | ModalError

record ChangePasswordState =
  formData :: FormData
  formError :: "string option"
  loading :: bool
  isModalOpen :: bool
  modalStatus :: ModalStatus
  modalMessage :: string

definition initialChangePasswordState :: ChangePasswordState where
  "initialChangePasswordState =
     \<lparr>formData = \<lparr>oldPassword = [], newPassword = [], confirmPassword = []\<rparr>,
      formError = None, loading = False, isModalOpen = False,
      modalStatus = ModalSuccess, modalMessage = []\<rparr>"

text \<open>
  What \<open>handleSubmit\<close> does to the outside, in order: the POST to
  \<open>/auth/change-password\<close> with its body (the token of the route may be undefined),
  the logout call, and the navigation scheduled with \<open>setTimeout\<close>.
\<close>

datatype effect =
  PostChangePassword "string option" jsString jsString jsString
| Logout
| NavigateAfter nat string

fun isPost :: "effect \<Rightarrow> bool" where
  "isPost (PostChangePassword token old new confirm) = True"
| "isPost Logout = False"
| "isPost (NavigateAfter ms path) = False"

text \<open>The \<open>catch\<close> block of \<open>handleSubmit\<close>.\<close>

definition submitFailed :: "thrown \<Rightarrow> ChangePasswordState \<Rightarrow> ChangePasswordState" where
  "submitFailed error st =
     (let errorMessage =
            (if isAxiosError error then backend_or error ''Failed to change password''
             else ''Failed to change password'')
      in st\<lparr>formError := Some errorMessage, modalStatus := ModalError,
            modalMessage := errorMessage, isModalOpen := True\<rparr>)"

text \<open>
  \<open>postRes\<close> and \<open>logoutRes\<close> are the outcomes of the two awaited calls; they are read
  only on the paths that make the calls.
\<close>

definition handleSubmit ::
  "ChangePasswordState \<Rightarrow> string option \<Rightarrow> unit outcome \<Rightarrow> unit outcome \<Rightarrow>
   ChangePasswordState \<times> effect list" where
  "handleSubmit st token postRes logoutRes =
     (let st0 = st\<lparr>formError := None\<rparr>;
          fd = formData st
      in if newPassword fd \<noteq> confirmPassword fd
         then (st0\<lparr>formError := Some ''New passwords do not match''\<rparr>, [])
         else if length (newPassword fd) < 6
         then (st0\<lparr>formError := Some ''New password must be at least 6 characters long''\<rparr>, [])
         else
           (let st1 = st0\<lparr>loading := True\<rparr>;
                post = PostChangePassword token (oldPassword fd) (newPassword fd) (confirmPassword fd)
            in case postRes of
                 Rejected error \<Rightarrow> ((submitFailed error st1)\<lparr>loading := False\<rparr>, [post])
               | Resolved _ \<Rightarrow>
                   (let st2 = st1\<lparr>modalStatus := ModalSuccess,
                                   modalMessage := ''Password successfully changed! Redirecting to login...'',
                                   isModalOpen := True\<rparr>
                    in case logoutRes of
                         Rejected error \<Rightarrow> ((submitFailed error st2)\<lparr>loading := False\<rparr>, [post, Logout])
                       | Resolved _ \<Rightarrow>
                           (st2\<lparr>loading := False\<rparr>, [post, Logout, NavigateAfter 3000 ''/login'']))))"

section \<open>AdminDashboard\<close>

text \<open>
  The \<open>User\<close> model and the \<open>UserRole\<close> enum are declared outside the files at hand.
  The component reads only \<open>role\<close>; the other fields of a user stay in the extension
  part of the record, and the enum member \<open>UserRole.ADMIN\<close> is a parameter.
\<close>

record 'role User =
  role :: 'role

datatype ActiveTab = TabPosts | TabComments | TabCategories

datatype 'user content =
  PostsManagement 'user
| CommentsManagement 'user
| CategoriesManagement

text \<open>
  What the component returns: the redirect (\<open>Navigate\<close> with its \<open>to\<close> and \<open>replace\<close>
  props), or the dashboard with its tab bar, the active tab and the content.
\<close>

datatype 'user rendered =
  Navigate string bool
| Dashboard "(ActiveTab \<times> string) list" ActiveTab "'user content"

definition renderContent :: "ActiveTab \<Rightarrow> 'user \<Rightarrow> 'user content" where
  "renderContent activeTab currentUser =
     (case activeTab of
        TabPosts \<Rightarrow> PostsManagement currentUser
      | TabComments \<Rightarrow> CommentsManagement currentUser
      | TabCategories \<Rightarrow> CategoriesManagement)"

text \<open>
  \<open>currentUser?.role !== UserRole.ADMIN\<close> holds for a null user (it has no role) and
  for a user with another role; both return the redirect.
\<close>

definition AdminDashboard ::
  "'role \<Rightarrow> (string \<Rightarrow> string) \<Rightarrow> ('role, 'more) User_scheme option \<Rightarrow> ActiveTab \<Rightarrow>
   ('role, 'more) User_scheme rendered" where
  "AdminDashboard ADMIN t currentUser activeTab =
     (case currentUser of
        None \<Rightarrow> Navigate ''/'' True
      | Some u \<Rightarrow>
          (if role u \<noteq> ADMIN then Navigate ''/'' True
           else Dashboard [(TabPosts, t ''admin.tabs.posts''),
                           (TabComments, t ''admin.tabs.comments''),
                           (TabCategories, t ''admin.tabs.categories'')]
                          activeTab (renderContent activeTab u)))"

text \<open>The management components in what was rendered.\<close>

fun managementComponents :: "'user rendered \<Rightarrow> 'user content list" where
  "managementComponents (Navigate to replace) = []"
| "managementComponents (Dashboard tabs activeTab c) = [c]"

section \<open>The spec's page count\<close>

text \<open>
  The last valid page after a delete as the specification writes it,
  \<open>ceil((totalItems - 1) / itemsPerPage)\<close>, with the quotient taken in the reals. It is
  compared below with what \<open>handleDeletePost\<close> computes through \<open>ceilDiv\<close>.
\<close>

definition specLastValidPage :: "Pagination \<Rightarrow> int" where
  "specLastValidPage pg = \<lceil>real_of_int (totalItems pg - 1) / real_of_int (itemsPerPage pg)\<rceil>"

section \<open>Properties of the list view\<close>

subsection \<open>Load failures\<close>

lemma fetchPosts_rejected_error:
  "errorDetails (fetchPosts t (Rejected e) st) =
     Some \<lparr>message = t ''userPosts.errors.loadFailed'',
           details = Some (t ''error.tryAgain''),
           code = Some ''POSTS_LOAD_ERROR''\<rparr>"
  by (simp add: fetchPosts_def fetchPosts_settle_def fetchPosts_begin_def)

lemma deleteError_backend_message:
  "m \<noteq> [] \<Longrightarrow> message (deleteError t (AxiosError (Some m))) = m"
  by (simp add: deleteError_def)

text \<open>
  C1. A list fetch that fails with the body \<open>{error: "Database unavailable"}\<close> should
  give an Error State whose message is that backend message and whose code is
  \<open>POSTS_LOAD_ERROR\<close>. The code is right, the message is not: the \<open>catch\<close> block of
  \<open>fetchPosts\<close> never reads the caught value, so the message is the translated fallback
  whatever the backend sent (here with a translation function that returns its key),
  while the delete path of the same component does prefer the backend message
  (\<open>deleteError_backend_message\<close>).
\<close>

theorem fetchPosts_database_unavailable:
  "errorDetails (fetchPosts id (Rejected (AxiosError (Some ''Database unavailable'')))
                  (initialState :: unit UserPostsState)) =
     Some \<lparr>message = ''userPosts.errors.loadFailed'',
           details = Some ''error.tryAgain'',
           code = Some ''POSTS_LOAD_ERROR''\<rparr>"
  by (simp add: fetchPosts_def fetchPosts_settle_def fetchPosts_begin_def)

subsection \<open>The loading flag\<close>

text \<open>
  C7. For every fetch, the loading flag is true once the call has started and false
  when it has finished, whether the request resolved or was rejected.
\<close>

theorem fetchPosts_loading_flag:
  "isLoading (fetchPosts_begin st) \<and>
   \<not> isLoading (fetchPosts_settle t res (fetchPosts_begin st)) \<and>
   \<not> isLoading (fetchPosts t res st)"
  by (cases res) (simp_all add: fetchPosts_def fetchPosts_settle_def fetchPosts_begin_def)

subsection \<open>Page changes\<close>

text \<open>
  C5, as the code has it. For \<open>1 \<le> n \<le> totalPages\<close>, \<open>handlePageChange n\<close> sets
  \<open>currentPage\<close> to \<open>n\<close>, and the effect then sends exactly one request, with
  \<open>page = n\<close>, when \<open>n\<close> differs from the page before, and none when \<open>n\<close> is the page
  before (no dependency of the effect has changed). For \<open>n < 1\<close> or \<open>n > totalPages\<close>
  the state is unchanged and no request is sent, in every state, also one whose
  \<open>totalPages\<close> is zero. The handler has no failing path.
\<close>

theorem handlePageChange_effect:
  "(1 \<le> n \<and> n \<le> totalPages (pagination st) \<longrightarrow>
      currentPage (pagination (handlePageChange st n)) = n \<and>
      useEffect st (handlePageChange st n) =
        (if n = currentPage (pagination st) then []
         else [Get (fetchParams st (Finite n) (sortBy st) (filters st))])) \<and>
   (n < 1 \<or> totalPages (pagination st) < n \<longrightarrow>
      handlePageChange st n = st \<and>
      useEffect st (handlePageChange st n) = [])"
proof (intro conjI impI)
  assume inside: "1 \<le> n \<and> n \<le> totalPages (pagination st)"
  then have accepted: "handlePageChange st n = st\<lparr>pagination := (pagination st)\<lparr>currentPage := n\<rparr>\<rparr>"
    by (simp add: handlePageChange_def)
  show "currentPage (pagination (handlePageChange st n)) = n"
    by (simp add: accepted)
  show "useEffect st (handlePageChange st n) =
          (if n = currentPage (pagination st) then []
           else [Get (fetchParams st (Finite n) (sortBy st) (filters st))])"
    by (simp add: accepted useEffect_def effectDeps_def effectRequest_def fetchParams_def)
next
  assume outside: "n < 1 \<or> totalPages (pagination st) < n"
  then show ignored: "handlePageChange st n = st"
    by (auto simp add: handlePageChange_def)
  show "useEffect st (handlePageChange st n) = []"
    by (simp add: ignored useEffect_def)
qed

theorem handlePageChange_effect_witness:
  "currentPage (pagination (handlePageChange
      ((initialState :: unit UserPostsState)
         \<lparr>pagination := \<lparr>currentPage = 1, totalPages = 3, totalItems = 14, itemsPerPage = 6\<rparr>\<rparr>) 2)) = 2 \<and>
   useEffect
      ((initialState :: unit UserPostsState)
         \<lparr>pagination := \<lparr>currentPage = 1, totalPages = 3, totalItems = 14, itemsPerPage = 6\<rparr>\<rparr>)
      (handlePageChange
         ((initialState :: unit UserPostsState)
            \<lparr>pagination := \<lparr>currentPage = 1, totalPages = 3, totalItems = 14, itemsPerPage = 6\<rparr>\<rparr>) 2) =
     [Get [(''page'', ''2''), (''limit'', ''6''), (''sort'', ''publishDate'')]] \<and>
   handlePageChange
      ((initialState :: unit UserPostsState)
         \<lparr>pagination := \<lparr>currentPage = 1, totalPages = 3, totalItems = 14, itemsPerPage = 6\<rparr>\<rparr>) 5 =
     (initialState :: unit UserPostsState)
         \<lparr>pagination := \<lparr>currentPage = 1, totalPages = 3, totalItems = 14, itemsPerPage = 6\<rparr>\<rparr> \<and>
   handlePageChange
      ((initialState :: unit UserPostsState)
         \<lparr>pagination := \<lparr>currentPage = 1, totalPages = 0, totalItems = 0, itemsPerPage = 6\<rparr>\<rparr>) 1 =
     (initialState :: unit UserPostsState)
         \<lparr>pagination := \<lparr>currentPage = 1, totalPages = 0, totalItems = 0, itemsPerPage = 6\<rparr>\<rparr> \<and>
   useEffect
      ((initialState :: unit UserPostsState)
         \<lparr>pagination := \<lparr>currentPage = 1, totalPages = 0, totalItems = 0, itemsPerPage = 6\<rparr>\<rparr>)
      (handlePageChange
         ((initialState :: unit UserPostsState)
            \<lparr>pagination := \<lparr>currentPage = 1, totalPages = 0, totalItems = 0, itemsPerPage = 6\<rparr>\<rparr>) 1) = []"
proof -
  let ?loaded = "(initialState :: unit UserPostsState)
       \<lparr>pagination := \<lparr>currentPage = 1, totalPages = 3, totalItems = 14, itemsPerPage = 6\<rparr>\<rparr>"
  let ?empty = "(initialState :: unit UserPostsState)
       \<lparr>pagination := \<lparr>currentPage = 1, totalPages = 0, totalItems = 0, itemsPerPage = 6\<rparr>\<rparr>"
  have inside: "1 \<le> (2::int) \<and> 2 \<le> totalPages (pagination ?loaded)"
    by simp
  have above: "(5::int) < 1 \<or> totalPages (pagination ?loaded) < 5"
    by simp
  have none: "(1::int) < 1 \<or> totalPages (pagination ?empty) < 1"
    by simp
  from handlePageChange_effect [of 2 ?loaded] inside
  have accepted:
    "currentPage (pagination (handlePageChange ?loaded 2)) = 2 \<and>
     useEffect ?loaded (handlePageChange ?loaded 2) =
       (if 2 = currentPage (pagination ?loaded) then []
        else [Get (fetchParams ?loaded (Finite 2) (sortBy ?loaded) (filters ?loaded))])"
    by blast
  have sent:
    "(if 2 = currentPage (pagination ?loaded) then []
      else [Get (fetchParams ?loaded (Finite 2) (sortBy ?loaded) (filters ?loaded))]) =
     [Get [(''page'', ''2''), (''limit'', ''6''), (''sort'', ''publishDate'')]]"
    by (simp add: initialState_def emptyFilters_def fetchParams_def toString_def)
  from handlePageChange_effect [of 5 ?loaded] above
  have ignored: "handlePageChange ?loaded 5 = ?loaded"
    by blast
  from handlePageChange_effect [of 1 ?empty] none
  have untouched:
    "handlePageChange ?empty 1 = ?empty \<and> useEffect ?empty (handlePageChange ?empty 1) = []"
    by blast
  have requested:
    "useEffect ?loaded (handlePageChange ?loaded 2) =
       [Get [(''page'', ''2''), (''limit'', ''6''), (''sort'', ''publishDate'')]]"
    by (rule trans [OF accepted [THEN conjunct2] sent])
  show ?thesis
    by (intro conjI accepted [THEN conjunct1] requested ignored
          untouched [THEN conjunct1] untouched [THEN conjunct2])
qed

text \<open>
  The claim as written fails where \<open>n\<close> is the current page. Take the view after its
  first fetch has loaded page 1 of 3 (six posts shown, the page bar rendered): page 1 is
  in range, and asking for it again sends no request.
\<close>

theorem handlePageChange_same_page_no_fetch:
  "posts (fetchPosts id
      (Resolved \<lparr>r_posts = [(), (), (), (), (), ()],
                 r_pagination = \<lparr>currentPage = 1, totalPages = 3, totalItems = 14, itemsPerPage = 6\<rparr>\<rparr>)
      initialState) \<noteq> [] \<and>
   \<not> isLoading (fetchPosts id
      (Resolved \<lparr>r_posts = [(), (), (), (), (), ()],
                 r_pagination = \<lparr>currentPage = 1, totalPages = 3, totalItems = 14, itemsPerPage = 6\<rparr>\<rparr>)
      initialState) \<and>
   (1::int) \<le> totalPages (pagination (fetchPosts id
      (Resolved \<lparr>r_posts = [(), (), (), (), (), ()],
                 r_pagination = \<lparr>currentPage = 1, totalPages = 3, totalItems = 14, itemsPerPage = 6\<rparr>\<rparr>)
      initialState)) \<and>
   currentPage (pagination (handlePageChange (fetchPosts id
      (Resolved \<lparr>r_posts = [(), (), (), (), (), ()],
                 r_pagination = \<lparr>currentPage = 1, totalPages = 3, totalItems = 14, itemsPerPage = 6\<rparr>\<rparr>)
      initialState) 1)) = 1 \<and>
   useEffect
     (fetchPosts id
        (Resolved \<lparr>r_posts = [(), (), (), (), (), ()],
                   r_pagination = \<lparr>currentPage = 1, totalPages = 3, totalItems = 14, itemsPerPage = 6\<rparr>\<rparr>)
        initialState)
     (handlePageChange
        (fetchPosts id
           (Resolved \<lparr>r_posts = [(), (), (), (), (), ()],
                      r_pagination = \<lparr>currentPage = 1, totalPages = 3, totalItems = 14, itemsPerPage = 6\<rparr>\<rparr>)
           initialState) 1) = []"
  by (simp add: fetchPosts_def fetchPosts_settle_def fetchPosts_begin_def initialState_def
        handlePageChange_def useEffect_def effectDeps_def)

subsection \<open>Sort, filter and reset\<close>

text \<open>
  C6. Every call of \<open>handleSortChange\<close>, \<open>handleFilterChange\<close> or \<open>handleResetAll\<close>
  sets \<open>currentPage\<close> to 1, whatever it was before.
\<close>

theorem query_change_resets_page:
  "currentPage (pagination (handleSortChange st newSort)) = 1 \<and>
   currentPage (pagination (handleFilterChange st newFilters)) = 1 \<and>
   currentPage (pagination (handleResetAll st)) = 1"
  by (simp add: handleSortChange_def handleFilterChange_def handleResetAll_def)

text \<open>
  C8. \<open>handleResetAll\<close> is idempotent on the Query State: from every state, the Query
  State after two calls in a row is the one after the first call, and it is page 1,
  the sort key \<open>publishDate\<close> and no filters (the page size is not touched).
\<close>

theorem handleResetAll_idempotent:
  "queryState (handleResetAll (handleResetAll st)) = queryState (handleResetAll st) \<and>
   queryState (handleResetAll st) =
     (1, itemsPerPage (pagination st), ''publishDate'',
      \<lparr>dateInterval = None, searchQuery = None, categoryIds = None\<rparr>)"
  by (simp add: queryState_def handleResetAll_def emptyFilters_def)

subsection \<open>Reconciling the page after a delete\<close>

lemma ceilDiv_ceiling:
  "b \<noteq> 0 \<Longrightarrow> ceilDiv a b = Finite \<lceil>real_of_int a / real_of_int b\<rceil>"
  by (simp add: ceilDiv_def ceiling_divide_eq_div)

lemma ceilDiv_zero: "\<not> (gtNum x (ceilDiv a 0) \<and> positive (ceilDiv a 0))"
  by (simp add: ceilDiv_def)

text \<open>
  C2. After a successful delete the handler first re-fetches the current page; then, when
  the current page exceeds \<open>ceil((totalItems - 1) / itemsPerPage)\<close>, computed from the
  pagination of before the delete, and that count is greater than zero, it re-fetches
  that page. With a page size of zero the quotient is no number and there is no second
  re-fetch. The counts are safe integers, so that the subtraction, the quotient and the
  printed page numbers of the source are the exact ones. In the scenario of the claim
  (page size 6, 7 items, page 2) the second re-fetch asks for page 1: that is the
  witness.
\<close>

theorem handleDeletePost_reconciles:
  assumes "\<bar>currentPage (pagination st)\<bar> < 2 ^ 53"
    and "\<bar>totalItems (pagination st)\<bar> < 2 ^ 53"
    and "\<bar>itemsPerPage (pagination st)\<bar> < 2 ^ 53"
  shows "handleDeletePost t st postId (Resolved u) r1 r2 =
     (if itemsPerPage (pagination st) \<noteq> 0 \<and>
         currentPage (pagination st) > specLastValidPage (pagination st) \<and>
         specLastValidPage (pagination st) > 0
      then (fetchPosts t r2 (fetchPosts t r1 st),
            [Delete postId,
             Get (fetchParams st (Finite (currentPage (pagination st))) (sortBy st) (filters st)),
             Get (fetchParams st (Finite (specLastValidPage (pagination st))) (sortBy st) (filters st))])
      else (fetchPosts t r1 st,
            [Delete postId,
             Get (fetchParams st (Finite (currentPage (pagination st))) (sortBy st) (filters st))]))"
proof (cases "itemsPerPage (pagination st) = 0")
  case True
  then show ?thesis
    using ceilDiv_zero [of "currentPage (pagination st)" "totalItems (pagination st) - 1"]
    by (simp add: handleDeletePost_def Let_def)
next
  case False
  then show ?thesis
    by (simp add: handleDeletePost_def Let_def ceilDiv_ceiling specLastValidPage_def del: of_int_diff)
qed

theorem handleDeletePost_reconciles_witness:
  "snd (handleDeletePost id
          ((initialState :: unit UserPostsState)
             \<lparr>pagination := \<lparr>currentPage = 2, totalPages = 2, totalItems = 7, itemsPerPage = 6\<rparr>\<rparr>)
          41 (Resolved ()) (Rejected OtherError) (Rejected OtherError)) =
     [Delete 41,
      Get [(''page'', ''2''), (''limit'', ''6''), (''sort'', ''publishDate'')],
      Get [(''page'', ''1''), (''limit'', ''6''), (''sort'', ''publishDate'')]]"
proof -
  have safe:
    "\<bar>currentPage (pagination ((initialState :: unit UserPostsState)
        \<lparr>pagination := \<lparr>currentPage = 2, totalPages = 2, totalItems = 7, itemsPerPage = 6\<rparr>\<rparr>))\<bar> < 2 ^ 53"
    "\<bar>totalItems (pagination ((initialState :: unit UserPostsState)
        \<lparr>pagination := \<lparr>currentPage = 2, totalPages = 2, totalItems = 7, itemsPerPage = 6\<rparr>\<rparr>))\<bar> < 2 ^ 53"
    "\<bar>itemsPerPage (pagination ((initialState :: unit UserPostsState)
        \<lparr>pagination := \<lparr>currentPage = 2, totalPages = 2, totalItems = 7, itemsPerPage = 6\<rparr>\<rparr>))\<bar> < 2 ^ 53"
    by simp_all
  from handleDeletePost_reconciles
         [OF safe, of id 41 "()" "Rejected OtherError" "Rejected OtherError"]
  show ?thesis
    by (simp add: initialState_def emptyFilters_def fetchParams_def toString_def specLastValidPage_def)
qed

subsection \<open>The Error State\<close>

text \<open>
  C3, as the code has it. Starting a fetch does not clear the Error State, and neither
  does a fetch that succeeds: \<open>errorDetails\<close> and \<open>showErrorModal\<close> stay as they were. A
  failed fetch overwrites \<open>errorDetails\<close> with the load error and opens the modal.
  Closing the modal sets \<open>showErrorModal\<close> to false and keeps \<open>errorDetails\<close>. The state
  holds at most one Error State at a time.
\<close>

theorem error_state_lifecycle:
  "errorDetails (fetchPosts_begin st) = errorDetails st \<and>
   showErrorModal (fetchPosts_begin st) = showErrorModal st \<and>
   errorDetails (fetchPosts t (Resolved response) st) = errorDetails st \<and>
   showErrorModal (fetchPosts t (Resolved response) st) = showErrorModal st \<and>
   errorDetails (fetchPosts t (Rejected e) st) =
     Some \<lparr>message = t ''userPosts.errors.loadFailed'',
           details = Some (t ''error.tryAgain''),
           code = Some ''POSTS_LOAD_ERROR''\<rparr> \<and>
   showErrorModal (fetchPosts t (Rejected e) st) \<and>
   \<not> errorModal_isOpen (errorModal_onClose st) \<and>
   errorDetails (errorModal_onClose st) = errorDetails st \<and>
   card (set_option (errorDetails st)) \<le> 1"
  by (cases "errorDetails st")
     (simp_all add: fetchPosts_def fetchPosts_settle_def fetchPosts_begin_def
        errorModal_onClose_def errorModal_isOpen_def)

text \<open>
  The claim as written fails when a fetch starts after a failed one: the error of the
  failed fetch is still stored and the modal still open.
\<close>

theorem fetch_start_keeps_error:
  "errorDetails (fetchPosts_begin (fetchPosts id (Rejected OtherError) (initialState :: unit UserPostsState))) =
     Some \<lparr>message = ''userPosts.errors.loadFailed'',
           details = Some ''error.tryAgain'',
           code = Some ''POSTS_LOAD_ERROR''\<rparr> \<and>
   showErrorModal (fetchPosts_begin (fetchPosts id (Rejected OtherError) (initialState :: unit UserPostsState)))"
  by (simp add: fetchPosts_def fetchPosts_settle_def fetchPosts_begin_def)

subsection \<open>The page size\<close>

lemma fetchPosts_itemsPerPage:
  "itemsPerPage (pagination (fetchPosts t res st)) =
     (case res of Resolved response \<Rightarrow> itemsPerPage (r_pagination response)
                | Rejected e \<Rightarrow> itemsPerPage (pagination st))"
  by (cases res) (simp_all add: fetchPosts_def fetchPosts_settle_def fetchPosts_begin_def)

lemma fetchPosts_size_kept:
  "set (reportedSize res) \<subseteq> {s} \<Longrightarrow> itemsPerPage (pagination st) = s \<Longrightarrow>
   itemsPerPage (pagination (fetchPosts t res st)) = s"
  by (cases res) (simp_all add: fetchPosts_itemsPerPage)

lemma step_size_kept:
  assumes sizes: "set (reportedSizes a) \<subseteq> {s}" and before: "itemsPerPage (pagination st) = s"
  shows "itemsPerPage (pagination (step t st a)) = s"
proof (cases a)
  case (DeletePost postId del r1 r2)
  from sizes DeletePost have r1: "set (reportedSize r1) \<subseteq> {s}" and r2: "set (reportedSize r2) \<subseteq> {s}"
    by simp_all
  have one: "itemsPerPage (pagination (fetchPosts t r1 st)) = s"
    using r1 before by (rule fetchPosts_size_kept)
  have two: "itemsPerPage (pagination (fetchPosts t r2 (fetchPosts t r1 st))) = s"
    using r2 one by (rule fetchPosts_size_kept)
  show ?thesis
    using DeletePost one two before by (cases del) (simp_all add: handleDeletePost_def Let_def)
next
  case (Fetch res)
  with sizes before show ?thesis by (simp add: fetchPosts_size_kept)
qed (simp_all add: before handleSortChange_def handleFilterChange_def handleResetAll_def
       handlePageChange_def errorModal_onClose_def)

lemma run_size_kept:
  "\<forall>a\<in>set acts. set (reportedSizes a) \<subseteq> {s} \<Longrightarrow> itemsPerPage (pagination st) = s \<Longrightarrow>
   itemsPerPage (pagination (run t st acts)) = s"
  unfolding run_def
  by (induction acts arbitrary: st) (simp_all add: step_size_kept)

text \<open>
  C4, as the code has it. The page size starts at 6. A successful fetch stores the
  \<open>itemsPerPage\<close> of the server's response, whatever it is; nothing else writes it. So
  the page size is 6 after every sequence of handler calls, fetches and deletes in which
  each successful response reports a page size of 6.
\<close>

theorem itemsPerPage_lifetime:
  assumes "\<forall>a\<in>set acts. set (reportedSizes a) \<subseteq> {6}"
  shows "itemsPerPage (pagination (initialState :: 'post UserPostsState)) = 6 \<and>
         itemsPerPage (pagination (run t (initialState :: 'post UserPostsState) acts)) = 6 \<and>
         itemsPerPage (pagination (fetchPosts t (Resolved response) st)) =
           itemsPerPage (r_pagination response)"
proof -
  have start: "itemsPerPage (pagination (initialState :: 'post UserPostsState)) = 6"
    by (simp add: initialState_def)
  from assms start have "itemsPerPage (pagination (run t (initialState :: 'post UserPostsState) acts)) = 6"
    by (rule run_size_kept)
  with start show ?thesis by (simp add: fetchPosts_itemsPerPage)
qed

theorem itemsPerPage_lifetime_witness:
  "itemsPerPage (pagination (run id (initialState :: unit UserPostsState)
     [Fetch (Resolved \<lparr>r_posts = [(), ()],
                        r_pagination = \<lparr>currentPage = 1, totalPages = 2, totalItems = 7, itemsPerPage = 6\<rparr>\<rparr>),
      PageChange 2,
      Fetch (Rejected OtherError),
      CloseErrorModal,
      DeletePost 41 (Resolved ())
        (Resolved \<lparr>r_posts = [],
                   r_pagination = \<lparr>currentPage = 2, totalPages = 1, totalItems = 6, itemsPerPage = 6\<rparr>\<rparr>)
        (Rejected (AxiosError None)),
      SortChange ''likesCount'',
      ResetAll])) = 6"
proof -
  have sizes: "\<forall>a\<in>set
     [Fetch (Resolved \<lparr>r_posts = [(), ()],
                        r_pagination = \<lparr>currentPage = 1, totalPages = 2, totalItems = 7, itemsPerPage = 6\<rparr>\<rparr>),
      PageChange 2,
      Fetch (Rejected OtherError),
      CloseErrorModal,
      DeletePost 41 (Resolved ())
        (Resolved \<lparr>r_posts = [],
                   r_pagination = \<lparr>currentPage = 2, totalPages = 1, totalItems = 6, itemsPerPage = 6\<rparr>\<rparr>)
        (Rejected (AxiosError None)),
      SortChange ''likesCount'',
      ResetAll]. set (reportedSizes a) \<subseteq> {6}"
    by simp
  from itemsPerPage_lifetime [OF sizes, of id] show ?thesis
    by (rule conjunct1 [OF conjunct2])
qed

text \<open>
  The claim as written fails on a successful fetch whose response reports another page
  size: the view then holds 10, not 6.
\<close>

theorem fetch_changes_itemsPerPage:
  "itemsPerPage (pagination (fetchPosts id
      (Resolved \<lparr>r_posts = [],
                 r_pagination = \<lparr>currentPage = 1, totalPages = 1, totalItems = 0, itemsPerPage = 10\<rparr>\<rparr>)
      (initialState :: unit UserPostsState))) = 10 \<and>
   itemsPerPage (pagination (initialState :: unit UserPostsState)) = 6"
  by (simp add: fetchPosts_def fetchPosts_settle_def fetchPosts_begin_def initialState_def)

section \<open>Properties of the password form\<close>

text \<open>
  C9. When the new password and its confirmation differ, or the new password has fewer
  than 6 code units, \<open>handleSubmit\<close> stores a validation error, sends nothing and does
  not touch the loading flag (so it stays false). When both checks pass, the
  change-password request is sent, once.
\<close>

theorem handleSubmit_validation:
  assumes "newPassword (formData st) \<noteq> confirmPassword (formData st) \<or>
           length (newPassword (formData st)) < 6"
    and "newPassword (formData st') = confirmPassword (formData st') \<and>
         6 \<le> length (newPassword (formData st'))"
  shows "handleSubmit st token postRes logoutRes =
           (st\<lparr>formError :=
                 Some (if newPassword (formData st) \<noteq> confirmPassword (formData st)
                       then ''New passwords do not match''
                       else ''New password must be at least 6 characters long'')\<rparr>,
            []) \<and>
         formError (fst (handleSubmit st token postRes logoutRes)) \<noteq> None \<and>
         filter isPost (snd (handleSubmit st token postRes logoutRes)) = [] \<and>
         loading (fst (handleSubmit st token postRes logoutRes)) = loading st \<and>
         filter isPost (snd (handleSubmit st' token postRes logoutRes)) =
           [PostChangePassword token (oldPassword (formData st')) (newPassword (formData st'))
              (confirmPassword (formData st'))]"
proof -
  from assms(1) have invalid:
    "handleSubmit st token postRes logoutRes =
       (st\<lparr>formError :=
             Some (if newPassword (formData st) \<noteq> confirmPassword (formData st)
                   then ''New passwords do not match''
                   else ''New password must be at least 6 characters long'')\<rparr>,
        [])"
    by (auto simp add: handleSubmit_def Let_def)
  from assms(2) have valid:
    "filter isPost (snd (handleSubmit st' token postRes logoutRes)) =
       [PostChangePassword token (oldPassword (formData st')) (newPassword (formData st'))
          (confirmPassword (formData st'))]"
    by (cases postRes; cases logoutRes) (simp_all add: handleSubmit_def Let_def)
  from valid show ?thesis
    by (simp add: invalid)
qed

theorem handleSubmit_validation_witness:
  "snd (handleSubmit
          (initialChangePasswordState
             \<lparr>formData := \<lparr>oldPassword = [0x6F, 0x6C, 0x64], newPassword = [0x61, 0x62, 0x63],
                           confirmPassword = [0x61, 0x62, 0x63]\<rparr>\<rparr>)
          (Some ''tok'') (Resolved ()) (Resolved ())) = [] \<and>
   \<not> loading (fst (handleSubmit
          (initialChangePasswordState
             \<lparr>formData := \<lparr>oldPassword = [0x6F, 0x6C, 0x64], newPassword = [0x61, 0x62, 0x63],
                           confirmPassword = [0x61, 0x62, 0x63]\<rparr>\<rparr>)
          (Some ''tok'') (Resolved ()) (Resolved ()))) \<and>
   filter isPost (snd (handleSubmit
          (initialChangePasswordState
             \<lparr>formData := \<lparr>oldPassword = [0x6F, 0x6C, 0x64],
                           newPassword = [0x61, 0x62, 0x63, 0x64, 0x65, 0x66],
                           confirmPassword = [0x61, 0x62, 0x63, 0x64, 0x65, 0x66]\<rparr>\<rparr>)
          (Some ''tok'') (Resolved ()) (Resolved ()))) =
     [PostChangePassword (Some ''tok'') [0x6F, 0x6C, 0x64]
        [0x61, 0x62, 0x63, 0x64, 0x65, 0x66] [0x61, 0x62, 0x63, 0x64, 0x65, 0x66]]"
  using handleSubmit_validation
    [of "initialChangePasswordState
           \<lparr>formData := \<lparr>oldPassword = [0x6F, 0x6C, 0x64], newPassword = [0x61, 0x62, 0x63],
                         confirmPassword = [0x61, 0x62, 0x63]\<rparr>\<rparr>"
        "initialChangePasswordState
           \<lparr>formData := \<lparr>oldPassword = [0x6F, 0x6C, 0x64],
                         newPassword = [0x61, 0x62, 0x63, 0x64, 0x65, 0x66],
                         confirmPassword = [0x61, 0x62, 0x63, 0x64, 0x65, 0x66]\<rparr>\<rparr>"
        "Some ''tok''" "Resolved ()" "Resolved ()"]
  by (simp add: initialChangePasswordState_def)

section \<open>Properties of the admin dashboard\<close>

text \<open>
  C10. For a null user and for a user whose role is not \<open>ADMIN\<close> the component returns
  the redirect to \<open>/\<close> and none of the management components. For a user whose role
  is \<open>ADMIN\<close> it returns the management component of the active tab; so management
  content is rendered only for an admin.
\<close>

theorem AdminDashboard_guard:
  assumes "currentUser = None \<or> (\<exists>u. currentUser = Some u \<and> role u \<noteq> ADMIN)"
    and "role admin = ADMIN"
  shows "AdminDashboard ADMIN t currentUser activeTab = Navigate ''/'' True \<and>
         managementComponents (AdminDashboard ADMIN t currentUser activeTab) = [] \<and>
         managementComponents (AdminDashboard ADMIN t (Some admin) activeTab) =
           [case activeTab of
              TabPosts \<Rightarrow> PostsManagement admin
            | TabComments \<Rightarrow> CommentsManagement admin
            | TabCategories \<Rightarrow> CategoriesManagement]"
  using assms by (auto simp add: AdminDashboard_def renderContent_def split: option.splits)

theorem AdminDashboard_guard_witness:
  "AdminDashboard ''admin'' id (Some \<lparr>role = ''user''\<rparr>) TabPosts = Navigate ''/'' True \<and>
   AdminDashboard ''admin'' id (None :: string User option) TabComments = Navigate ''/'' True \<and>
   managementComponents (AdminDashboard ''admin'' id (Some \<lparr>role = ''admin''\<rparr>) TabComments) =
     [CommentsManagement \<lparr>role = ''admin''\<rparr>]"
  using AdminDashboard_guard
      [of "Some \<lparr>role = ''user''\<rparr>" "''admin''" "\<lparr>role = ''admin''\<rparr>" id TabPosts]
    AdminDashboard_guard
      [of "None :: string User option" "''admin''" "\<lparr>role = ''admin''\<rparr>" id TabComments]
  by simp

end
